theory Spec2Isabelle
  imports Main
begin

section \<open>Startup configuration of ncmpcpp (src/configuration.cpp)\<close>

subsection \<open>Data\<close>

text \<open>
  The environment is read through \<open>getenv\<close>: a variable is either absent (\<open>nullptr\<close>,
  here \<open>None\<close>) or has a string value.
\<close>

type_synonym environment = "string \<Rightarrow> string option"

text \<open>
  Modelled from the spec: the screen identifier is an enumeration with a distinguished
  \<open>Unknown\<close> member; its other members are declared in a header outside src/ and are
  numbered here.
\<close>

datatype ScreenType = Unknown | Screen nat

text \<open>The fields of the global \<open>Config\<close> object that \<open>configure\<close> reads or writes.\<close>

record Configuration =
  ncmpcpp_directory :: string
  lyrics_directory :: string
  mpd_connection_timeout :: int
  startup_screen_type :: ScreenType
  startup_slave_screen_type :: ScreenType

text \<open>
  Modelled from the spec: the global connection object \<open>Mpd\<close> (mpdpp.h, outside src/)
  holds the host, the port and the timeout; a setter stores its argument.
\<close>

record Connection =
  m_host :: string
  m_port :: int
  m_timeout :: int

definition SetHostname :: "string \<Rightarrow> Connection \<Rightarrow> Connection" where
  "SetHostname host c = c\<lparr>m_host := host\<rparr>"

definition SetPort :: "int \<Rightarrow> Connection \<Rightarrow> Connection" where
  "SetPort port c = c\<lparr>m_port := port\<rparr>"

definition SetTimeout :: "int \<Rightarrow> Connection \<Rightarrow> Connection" where
  "SetTimeout t c = c\<lparr>m_timeout := t\<rparr>"

text \<open>
  The global objects the collaborators of \<open>configure\<close> work on. \<open>other\<close> stands for
  everything \<open>configure\<close> never inspects itself: the \<open>Bindings\<close> object and the file
  system.
\<close>

record 'x globals =
  Config :: Configuration
  Mpd :: Connection
  other :: 'x

text \<open>
  The calls \<open>configure\<close> makes to its collaborators, in the order they are made, each with
  its arguments and, last, whether it succeeded: the boolean returned by \<open>Config.read\<close> and
  \<open>Bindings.read\<close>, and for \<open>create_directory\<close> that it did not throw.
\<close>

datatype call =
    ConfigRead "string list" bool bool
  | BindingsRead string bool
  | GenerateDefaults
  | CreateDirectory string bool

record 'x world =
  globals :: "'x globals"
  env_home :: "string option"
  cout :: string
  cerr :: string
  calls :: "call list"

text \<open>
  How \<open>configure\<close> ends: it returns a boolean to its caller, or it calls \<open>exit\<close>, or the
  assertion of \<open>expand_home\<close> fails.
\<close>

datatype outcome = Return bool | Exit int | Abort

subsection \<open>The option table\<close>

text \<open>
  What the command line gave explicitly, option by option: the result of
  \<open>po::parse_command_line\<close> for the table declared in \<open>configure\<close>, with option values
  already converted to their declared types.
\<close>

record parsed_options =
  opt_host :: "string option"
  opt_port :: "int option"
  opt_config :: "string list option"
  opt_ignore_config_errors :: "bool option"
  opt_bindings :: "string option"
  opt_screen :: "string option"
  opt_slave_screen :: "string option"
  opt_help :: bool
  opt_version :: bool

text \<open>An entry of \<open>po::variables_map\<close>: the value and whether it is the declared default.\<close>

record 'a variable_value =
  as_value :: 'a
  defaulted :: bool

definition variable :: "'a \<Rightarrow> 'a option \<Rightarrow> 'a variable_value" where
  "variable dflt given =
     (case given of
        None \<Rightarrow> \<lparr>as_value = dflt, defaulted = True\<rparr>
      | Some v \<Rightarrow> \<lparr>as_value = v, defaulted = False\<rparr>)"

record variables_map =
  vm_host :: "string variable_value"
  vm_port :: "int variable_value"
  vm_config :: "string list variable_value"
  vm_ignore_config_errors :: "bool variable_value"
  vm_bindings :: "string variable_value"
  vm_screen :: "string option"
  vm_slave_screen :: "string option"
  vm_help :: bool
  vm_version :: bool

text \<open>\<open>po::store\<close> with the defaults of the option table (lines 78 to 86).\<close>

definition store :: "parsed_options \<Rightarrow> string list \<Rightarrow> variables_map" where
  "store po default_config_paths =
     \<lparr>vm_host = variable ''localhost'' (opt_host po),
      vm_port = variable 6600 (opt_port po),
      vm_config = variable default_config_paths (opt_config po),
      vm_ignore_config_errors = variable False (opt_ignore_config_errors po),
      vm_bindings = variable ''~/.ncmpcpp/bindings'' (opt_bindings po),
      vm_screen = opt_screen po,
      vm_slave_screen = opt_slave_screen po,
      vm_help = opt_help po,
      vm_version = opt_version po\<rparr>"

subsection \<open>Collaborators\<close>

text \<open>The preprocessor symbols that shape the version text.\<close>

record build_config =
  VERSION :: string
  HAVE_TAGLIB_H :: bool
  HAVE_CURL_CURL_H :: bool
  ENABLE_OUTPUTS :: bool
  ENABLE_VISUALIZER :: bool
  ENABLE_CLOCK :: bool
  HAVE_LANGINFO_H :: bool
  HAVE_FFTW3_H :: bool
  NCMPCPP_UNICODE :: bool

text \<open>
  Everything \<open>configure\<close> calls that is not defined in configuration.cpp is a parameter:
  \<^item> \<open>parse_command_line\<close>: the library's parser followed by \<open>po::store\<close>; \<open>Inl\<close> carries
    \<open>what()\<close> of the exception it throws;
  \<^item> \<open>options_text\<close>: the printed option table, which shows the default configuration paths;
  \<^item> \<open>lexical_cast_int\<close>: \<open>boost::lexical_cast<int>\<close>, \<open>None\<close> when it throws;
  \<^item> \<open>Config_read\<close>, \<open>Bindings_read\<close>: they report failure through the boolean they return;
  \<^item> \<open>create_directory\<close>: the file-system call, which sees and changes \<open>other\<close> only;
    \<open>Inl\<close> carries \<open>what()\<close> of the exception it throws;
  \<^item> \<open>stringtoStartupScreenType\<close>: the name table of the screens.
\<close>

record 'x externals =
  build :: build_config
  parse_command_line :: "string list \<Rightarrow> string + parsed_options"
  options_text :: "string list \<Rightarrow> string"
  lexical_cast_int :: "string \<Rightarrow> int option"
  Config_read :: "string list \<Rightarrow> bool \<Rightarrow> 'x globals \<Rightarrow> bool \<times> 'x globals"
  Bindings_read :: "string \<Rightarrow> 'x globals \<Rightarrow> bool \<times> 'x globals"
  Bindings_generateDefaults :: "'x globals \<Rightarrow> 'x globals"
  create_directory :: "string \<Rightarrow> 'x \<Rightarrow> string + 'x"
  stringtoStartupScreenType :: "string \<Rightarrow> ScreenType"

subsection \<open>Paths\<close>

definition xdg_config_home :: "environment \<Rightarrow> string" where
  "xdg_config_home getenv =
     (case getenv ''XDG_CONFIG_HOME'' of
        None \<Rightarrow> ''~/.config/''
      | Some result \<Rightarrow>
          (if result \<noteq> [] \<and> last result \<noteq> CHR ''/'' then result @ ''/'' else result))"

text \<open>
  \<open>expand_home\<close> works on the file-level variable \<open>env_home\<close>, passed here as the first
  argument. \<open>None\<close> is the failed assertion \<open>env_home != nullptr\<close>;
  \<open>path.replace(0, 1, env_home)\<close> puts the home directory in place of the first character.
\<close>

definition expand_home :: "string option \<Rightarrow> string \<Rightarrow> string option" where
  "expand_home home path =
     (case home of
        None \<Rightarrow> None
      | Some h \<Rightarrow> Some (if path \<noteq> [] \<and> hd path = CHR ''~'' then h @ drop 1 path else path))"

text \<open>\<open>std::for_each(config_paths.begin(), config_paths.end(), expand_home)\<close>.\<close>

fun expand_home_each :: "string option \<Rightarrow> string list \<Rightarrow> string list option" where
  "expand_home_each home [] = Some []"
| "expand_home_each home (p # ps) =
     (case expand_home home p of
        None \<Rightarrow> None
      | Some p' \<Rightarrow>
          (case expand_home_each home ps of
             None \<Rightarrow> None
           | Some ps' \<Rightarrow> Some (p' # ps')))"

subsection \<open>The blocks of \<open>configure\<close>\<close>

text \<open>
  A block of the \<open>try\<close> body either ends \<open>configure\<close> (\<open>Inl\<close>, with the outcome and the
  state at that moment) or falls through to the next block (\<open>Inr\<close>).
\<close>

type_synonym 'x block = "'x world \<Rightarrow> (outcome \<times> 'x world) + 'x world"

definition on_Mpd :: "(Connection \<Rightarrow> Connection) \<Rightarrow> 'x world \<Rightarrow> 'x world" where
  "on_Mpd f w = w\<lparr>globals := (globals w)\<lparr>Mpd := f (Mpd (globals w))\<rparr>\<rparr>"

definition on_Config :: "(Configuration \<Rightarrow> Configuration) \<Rightarrow> 'x world \<Rightarrow> 'x world" where
  "on_Config f w = w\<lparr>globals := (globals w)\<lparr>Config := f (Config (globals w))\<rparr>\<rparr>"

text \<open>The handler \<open>catch (std::exception &e)\<close> at the end of \<open>configure\<close>.\<close>

definition catch_exception :: "string \<Rightarrow> 'x world \<Rightarrow> outcome \<times> 'x world" where
  "catch_exception what w =
     (Exit 1, w\<lparr>cerr := cerr w @ ''Error while processing configuration: '' @ what @ ''\<newline>''\<rparr>)"

definition bad_lexical_cast :: string where
  "bad_lexical_cast = ''bad lexical cast: source type value could not be interpreted as target''"

definition usage_text :: "'x externals \<Rightarrow> string \<Rightarrow> string list \<Rightarrow> string" where
  "usage_text ext argv0 default_config_paths =
     ''Usage: '' @ argv0 @ '' [options]...\<newline>'' @ options_text ext default_config_paths @ ''\<newline>''"

definition version_text :: "build_config \<Rightarrow> string" where
  "version_text b =
     ''ncmpcpp '' @ VERSION b @ ''\<newline>\<newline>''
     @ ''optional screens compiled-in:\<newline>''
     @ (if HAVE_TAGLIB_H b then '' - tag editor\<newline>'' @ '' - tiny tag editor\<newline>'' else [])
     @ (if HAVE_CURL_CURL_H b then '' - artist info\<newline>'' else [])
     @ (if ENABLE_OUTPUTS b then '' - outputs\<newline>'' else [])
     @ (if ENABLE_VISUALIZER b then '' - visualizer\<newline>'' else [])
     @ (if ENABLE_CLOCK b then '' - clock\<newline>'' else [])
     @ ''\<newline>encoding detection: ''
     @ (if HAVE_LANGINFO_H b then ''enabled'' else ''disabled'')
     @ ''\<newline>built with support for:''
     @ (if HAVE_CURL_CURL_H b then '' curl'' else [])
     @ (if HAVE_FFTW3_H b then '' fftw'' else [])
     @ '' ncurses''
     @ (if HAVE_TAGLIB_H b then '' taglib'' else [])
     @ (if NCMPCPP_UNICODE b then '' unicode'' else [])
     @ ''\<newline>''"

text \<open>Lines 144 to 150: get home directory.\<close>

definition get_home_directory :: "environment \<Rightarrow> 'x block" where
  "get_home_directory getenv w =
     (let w = w\<lparr>env_home := getenv ''HOME''\<rparr>
      in if env_home w = None
         then Inl (Return False,
                   w\<lparr>cerr := cerr w @ ''Fatal error: HOME environment variable is not defined\<newline>''\<rparr>)
         else Inr w)"

text \<open>Lines 152 to 155: read configuration.\<close>

definition read_configuration :: "'x externals \<Rightarrow> variables_map \<Rightarrow> 'x block" where
  "read_configuration ext vm w =
     (case expand_home_each (env_home w) (as_value (vm_config vm)) of
        None \<Rightarrow> Inl (Abort, w)
      | Some config_paths \<Rightarrow>
          (let ignore = as_value (vm_ignore_config_errors vm);
               r = Config_read ext config_paths ignore (globals w);
               w = w\<lparr>globals := snd r, calls := calls w @ [ConfigRead config_paths ignore (fst r)]\<rparr>
           in if fst r = False then Inl (Exit 1, w) else Inr w))"

text \<open>Lines 157 to 166: the bindings path, read bindings.\<close>

definition read_bindings :: "'x externals \<Rightarrow> variables_map \<Rightarrow> 'x block" where
  "read_bindings ext vm w =
     (case (if defaulted (vm_bindings vm)
            then Some (ncmpcpp_directory (Config (globals w)) @ ''bindings'')
            else expand_home (env_home w) (as_value (vm_bindings vm))) of
        None \<Rightarrow> Inl (Abort, w)
      | Some bindings_path \<Rightarrow>
          (let r = Bindings_read ext bindings_path (globals w);
               w = w\<lparr>globals := snd r, calls := calls w @ [BindingsRead bindings_path (fst r)]\<rparr>
           in if fst r = False then Inl (Exit 1, w)
              else Inr (w\<lparr>globals := Bindings_generateDefaults ext (globals w),
                          calls := calls w @ [GenerateDefaults]\<rparr>)))"

text \<open>Lines 168 to 170: create directories.\<close>

definition create_one_directory :: "'x externals \<Rightarrow> string \<Rightarrow> 'x block" where
  "create_one_directory ext dir w =
     (case create_directory ext dir (other (globals w)) of
        Inl what \<Rightarrow> Inl (catch_exception what (w\<lparr>calls := calls w @ [CreateDirectory dir False]\<rparr>))
      | Inr x \<Rightarrow> Inr (w\<lparr>globals := (globals w)\<lparr>other := x\<rparr>,
                        calls := calls w @ [CreateDirectory dir True]\<rparr>))"

definition create_directories :: "'x externals \<Rightarrow> 'x block" where
  "create_directories ext w =
     (case create_one_directory ext (ncmpcpp_directory (Config (globals w))) w of
        Inl r \<Rightarrow> Inl r
      | Inr w \<Rightarrow> create_one_directory ext (lyrics_directory (Config (globals w))) w)"

text \<open>Lines 172 to 187: connection details from the environment, then from the command line.\<close>

definition connection_details :: "'x externals \<Rightarrow> environment \<Rightarrow> variables_map \<Rightarrow> 'x block" where
  "connection_details ext getenv vm w =
     (let env_host = getenv ''MPD_HOST'';
          env_port = getenv ''MPD_PORT'';
          w = (case env_host of None \<Rightarrow> w | Some h \<Rightarrow> on_Mpd (SetHostname h) w)
      in case (case env_port of
                 None \<Rightarrow> Inr w
               | Some p \<Rightarrow>
                   (case lexical_cast_int ext p of
                      None \<Rightarrow> Inl (catch_exception bad_lexical_cast w)
                    | Some n \<Rightarrow> Inr (on_Mpd (SetPort n) w))) of
           Inl r \<Rightarrow> Inl r
         | Inr w \<Rightarrow>
             (let w = (if \<not> defaulted (vm_host vm)
                       then on_Mpd (SetHostname (as_value (vm_host vm))) w else w);
                  w = (if \<not> defaulted (vm_port vm)
                       then on_Mpd (SetPort (as_value (vm_port vm))) w else w)
              in Inr (on_Mpd (SetTimeout (mpd_connection_timeout (Config (globals w)))) w)))"

text \<open>Lines 189 to 199: custom startup screen.\<close>

definition startup_screen :: "'x externals \<Rightarrow> variables_map \<Rightarrow> 'x block" where
  "startup_screen ext vm w =
     (case vm_screen vm of
        None \<Rightarrow> Inr w
      | Some screen \<Rightarrow>
          (let w = on_Config (startup_screen_type_update
                                (\<lambda>_. stringtoStartupScreenType ext screen)) w
           in if startup_screen_type (Config (globals w)) = Unknown
              then Inl (Exit 1, w\<lparr>cerr := cerr w @ ''Unknown screen: '' @ screen @ ''\<newline>''\<rparr>)
              else Inr w))"

text \<open>Lines 201 to 211: custom startup slave screen.\<close>

definition startup_slave_screen :: "'x externals \<Rightarrow> variables_map \<Rightarrow> 'x block" where
  "startup_slave_screen ext vm w =
     (case vm_slave_screen vm of
        None \<Rightarrow> Inr w
      | Some screen \<Rightarrow>
          (let w = on_Config (startup_slave_screen_type_update
                                (\<lambda>_. stringtoStartupScreenType ext screen)) w
           in if startup_slave_screen_type (Config (globals w)) = Unknown
              then Inl (Exit 1, w\<lparr>cerr := cerr w @ ''Unknown slave screen: '' @ screen @ ''\<newline>''\<rparr>)
              else Inr w))"

subsection \<open>\<open>configure\<close>\<close>

text \<open>
  \<open>argv\<close> is the program name \<open>argv0\<close> followed by the arguments \<open>args\<close>. The variables
  \<open>config_paths\<close> and \<open>bindings_path\<close>, which \<open>po::notify\<close> fills from the variables map,
  are read from the map where the blocks need them.
\<close>

definition default_config_paths :: "environment \<Rightarrow> string list" where
  "default_config_paths getenv = [''~/.ncmpcpp/config'', xdg_config_home getenv @ ''ncmpcpp/config'']"

definition configure ::
  "'x externals \<Rightarrow> environment \<Rightarrow> string \<Rightarrow> string list \<Rightarrow> 'x world \<Rightarrow> outcome \<times> 'x world" where
  "configure ext getenv argv0 args w =
     (case parse_command_line ext args of
        Inl what \<Rightarrow> catch_exception what w
      | Inr po \<Rightarrow>
          (let vm = store po (default_config_paths getenv)
           in if vm_help vm
              then (Return False,
                    w\<lparr>cout := cout w @ usage_text ext argv0 (default_config_paths getenv)\<rparr>)
              else if vm_version vm
              then (Return False, w\<lparr>cout := cout w @ version_text (build ext)\<rparr>)
              else
                (case get_home_directory getenv w of Inl r \<Rightarrow> r | Inr w \<Rightarrow>
                (case read_configuration ext vm w of Inl r \<Rightarrow> r | Inr w \<Rightarrow>
                (case read_bindings ext vm w of Inl r \<Rightarrow> r | Inr w \<Rightarrow>
                (case create_directories ext w of Inl r \<Rightarrow> r | Inr w \<Rightarrow>
                (case connection_details ext getenv vm w of Inl r \<Rightarrow> r | Inr w \<Rightarrow>
                (case startup_screen ext vm w of Inl r \<Rightarrow> r | Inr w \<Rightarrow>
                (case startup_slave_screen ext vm w of Inl r \<Rightarrow> r | Inr w \<Rightarrow>
                (Return True, w))))))))))"

subsection \<open>The caller\<close>

text \<open>
  Modelled from the spec: the caller of \<open>configure\<close> (\<open>main\<close>, outside src/). When
  \<open>configure\<close> returns false the caller exits with success status, status 0; when it returns
  true startup goes on with the rest of the application. A call of \<open>exit\<close> inside
  \<open>configure\<close> ends the process with the status given, a failed assertion aborts it.
\<close>

datatype process_end = Exits int | Continues | Aborts

definition caller_of_configure :: "outcome \<Rightarrow> process_end" where
  "caller_of_configure out =
     (case out of
        Return b \<Rightarrow> (if b then Continues else Exits 0)
      | Exit status \<Rightarrow> Exits status
      | Abort \<Rightarrow> Aborts)"

subsection \<open>A concrete setting to run the model in\<close>

text \<open>
  A decimal reader in the manner of \<open>boost::lexical_cast<int>\<close>: an optional sign, at least
  one digit, nothing else, and a value that fits 32 bits.
\<close>

definition digit_value :: "char \<Rightarrow> nat option" where
  "digit_value c = map_of (zip ''0123456789'' [0, 1, 2, 3, 4, 5, 6, 7, 8, 9]) c"

fun digits_value :: "string \<Rightarrow> nat \<Rightarrow> nat option" where
  "digits_value [] n = Some n"
| "digits_value (c # cs) n =
     (case digit_value c of None \<Rightarrow> None | Some d \<Rightarrow> digits_value cs (10 * n + d))"

definition decimal_int :: "string \<Rightarrow> int option" where
  "decimal_int s =
     (let negative = (s \<noteq> [] \<and> hd s = CHR ''-'');
          body = (if s \<noteq> [] \<and> (hd s = CHR ''-'' \<or> hd s = CHR ''+'') then tl s else s)
      in if body = [] then None
         else (case digits_value body 0 of
                 None \<Rightarrow> None
               | Some n \<Rightarrow>
                   (let v = (if negative then - int n else int n)
                    in if - 2147483648 \<le> v \<and> v \<le> 2147483647 then Some v else None)))"

text \<open>
  A reader for the long spellings of the option table (\<open>--name value\<close>, and the switches
  \<open>--help\<close> and \<open>--version\<close>). Like the library it refuses an option that is not in the
  table, an option whose argument is missing and a port that is not a number; the short
  spellings and \<open>--name=value\<close> are outside it.
\<close>

definition no_options :: parsed_options where
  "no_options =
     \<lparr>opt_host = None, opt_port = None, opt_config = None, opt_ignore_config_errors = None,
      opt_bindings = None, opt_screen = None, opt_slave_screen = None,
      opt_help = False, opt_version = False\<rparr>"

definition set_option :: "string \<Rightarrow> string \<Rightarrow> parsed_options \<Rightarrow> string + parsed_options" where
  "set_option name v po =
     (if name = ''--host'' then Inr (po\<lparr>opt_host := Some v\<rparr>)
      else if name = ''--port'' then
        (case decimal_int v of
           None \<Rightarrow> Inl (''the argument ('' @ v @ '') for option --port is invalid'')
         | Some n \<Rightarrow> Inr (po\<lparr>opt_port := Some n\<rparr>))
      else if name = ''--config'' then
        Inr (po\<lparr>opt_config := Some (case opt_config po of None \<Rightarrow> [v] | Some vs \<Rightarrow> vs @ [v])\<rparr>)
      else if name = ''--ignore-config-errors'' then
        (if v = ''true'' then Inr (po\<lparr>opt_ignore_config_errors := Some True\<rparr>)
         else if v = ''false'' then Inr (po\<lparr>opt_ignore_config_errors := Some False\<rparr>)
         else Inl (''the argument ('' @ v @ '') for option --ignore-config-errors is invalid''))
      else if name = ''--bindings'' then Inr (po\<lparr>opt_bindings := Some v\<rparr>)
      else if name = ''--screen'' then Inr (po\<lparr>opt_screen := Some v\<rparr>)
      else if name = ''--slave-screen'' then Inr (po\<lparr>opt_slave_screen := Some v\<rparr>)
      else Inl (''unrecognised option '' @ name))"

fun read_long_options :: "string list \<Rightarrow> parsed_options \<Rightarrow> string + parsed_options" where
  "read_long_options [] po = Inr po"
| "read_long_options [a] po =
     (if a = ''--help'' then Inr (po\<lparr>opt_help := True\<rparr>)
      else if a = ''--version'' then Inr (po\<lparr>opt_version := True\<rparr>)
      else (case set_option a [] po of
              Inl what \<Rightarrow> Inl what
            | Inr _ \<Rightarrow> Inl (''the required argument for option '' @ a @ '' is missing'')))"
| "read_long_options (a # v # rest) po =
     (if a = ''--help'' then read_long_options (v # rest) (po\<lparr>opt_help := True\<rparr>)
      else if a = ''--version'' then read_long_options (v # rest) (po\<lparr>opt_version := True\<rparr>)
      else (case set_option a v po of
              Inl what \<Rightarrow> Inl what
            | Inr po' \<Rightarrow> read_long_options rest po'))"

text \<open>
  A home with one configuration file: reading it puts the directories, the timeout and the
  server of the file (\<open>filehost\<close>, port 6601) into the globals. Reading fails for the paths
  named \<open>broken\<close>; the only screen name of the table is \<open>playlist\<close>.
\<close>

definition sample_build :: build_config where
  "sample_build =
     \<lparr>VERSION = ''0.6'', HAVE_TAGLIB_H = False, HAVE_CURL_CURL_H = False,
      ENABLE_OUTPUTS = False, ENABLE_VISUALIZER = False, ENABLE_CLOCK = False,
      HAVE_LANGINFO_H = False, HAVE_FFTW3_H = False, NCMPCPP_UNICODE = False\<rparr>"

definition full_build :: build_config where
  "full_build =
     \<lparr>VERSION = ''0.6'', HAVE_TAGLIB_H = True, HAVE_CURL_CURL_H = True,
      ENABLE_OUTPUTS = True, ENABLE_VISUALIZER = True, ENABLE_CLOCK = True,
      HAVE_LANGINFO_H = True, HAVE_FFTW3_H = True, NCMPCPP_UNICODE = True\<rparr>"

definition sample_Config_read :: "string list \<Rightarrow> bool \<Rightarrow> unit globals \<Rightarrow> bool \<times> unit globals" where
  "sample_Config_read paths ignore g =
     (''broken'' \<notin> set paths,
      g\<lparr>Config := (Config g)\<lparr>ncmpcpp_directory := ''/srv/ncmpcpp/'',
                             lyrics_directory := ''/srv/lyrics/'',
                             mpd_connection_timeout := 5\<rparr>,
        Mpd := (Mpd g)\<lparr>m_host := ''filehost'', m_port := 6601\<rparr>\<rparr>)"

definition sample_externals :: "unit externals" where
  "sample_externals =
     \<lparr>build = sample_build,
      parse_command_line = (\<lambda>args. read_long_options args no_options),
      options_text = (\<lambda>paths. ''Options:''),
      lexical_cast_int = decimal_int,
      Config_read = sample_Config_read,
      Bindings_read = (\<lambda>path g. (path \<noteq> ''broken'', g)),
      Bindings_generateDefaults = (\<lambda>g. g),
      create_directory = (\<lambda>dir x. Inr x),
      stringtoStartupScreenType = (\<lambda>name. if name = ''playlist'' then Screen 0 else Unknown)\<rparr>"

definition sample_world :: "unit world" where
  "sample_world =
     \<lparr>globals = \<lparr>Config = \<lparr>ncmpcpp_directory = [], lyrics_directory = [],
                          mpd_connection_timeout = 0, startup_screen_type = Screen 0,
                          startup_slave_screen_type = Screen 0\<rparr>,
                 Mpd = \<lparr>m_host = ''localhost'', m_port = 6600, m_timeout = 0\<rparr>,
                 other = ()\<rparr>,
      env_home = None, cout = [], cerr = [], calls = []\<rparr>"

definition sample_env :: environment where
  "sample_env = [''HOME'' \<mapsto> ''/home/u'']"

text \<open>A run of \<open>configure\<close> in that setting.\<close>

definition sample_run :: "environment \<Rightarrow> string list \<Rightarrow> outcome \<times> unit world" where
  "sample_run env args = configure sample_externals env ''ncmpcpp'' args sample_world"

section \<open>The blocks, one by one\<close>

text \<open>
  What each block does when it ends \<open>configure\<close> (\<open>Inl\<close>) and when it falls through
  (\<open>Inr\<close>).
\<close>

lemma expand_home_each_Some: "\<exists>ps'. expand_home_each (Some h) ps = Some ps'"
  by (induction ps) (auto simp: expand_home_def)

lemma get_home_directory_Inl:
  "get_home_directory getenv w = Inl r \<Longrightarrow>
     getenv ''HOME'' = None \<and>
     r = (Return False, w\<lparr>env_home := None,
            cerr := cerr w @ ''Fatal error: HOME environment variable is not defined\<newline>''\<rparr>)"
  by (auto simp: get_home_directory_def Let_def split: if_splits)

lemma get_home_directory_Inr:
  "get_home_directory getenv w = Inr w1 \<Longrightarrow>
     (\<exists>home. getenv ''HOME'' = Some home) \<and> w1 = w\<lparr>env_home := getenv ''HOME''\<rparr>"
  by (auto simp: get_home_directory_def Let_def split: if_splits)

lemma read_configuration_Inl:
  "read_configuration ext vm w = Inl r \<Longrightarrow> env_home w = Some home \<Longrightarrow>
     \<exists>cps. expand_home_each (Some home) (as_value (vm_config vm)) = Some cps \<and>
       \<not> fst (Config_read ext cps (as_value (vm_ignore_config_errors vm)) (globals w)) \<and>
       r = (Exit 1, w\<lparr>globals := snd (Config_read ext cps (as_value (vm_ignore_config_errors vm)) (globals w)),
              calls := calls w @ [ConfigRead cps (as_value (vm_ignore_config_errors vm)) False]\<rparr>)"
  using expand_home_each_Some [of home "as_value (vm_config vm)"]
  by (auto simp: read_configuration_def Let_def split: if_splits option.splits)

lemma read_configuration_Inr:
  "read_configuration ext vm w = Inr w1 \<Longrightarrow>
     \<exists>cps. expand_home_each (env_home w) (as_value (vm_config vm)) = Some cps \<and>
       fst (Config_read ext cps (as_value (vm_ignore_config_errors vm)) (globals w)) \<and>
       w1 = w\<lparr>globals := snd (Config_read ext cps (as_value (vm_ignore_config_errors vm)) (globals w)),
              calls := calls w @ [ConfigRead cps (as_value (vm_ignore_config_errors vm)) True]\<rparr>"
  by (auto simp: read_configuration_def Let_def split: if_splits option.splits)


lemma read_bindings_Inl:
  "read_bindings ext vm w = Inl r \<Longrightarrow> env_home w = Some home \<Longrightarrow>
     \<exists>bp. (if defaulted (vm_bindings vm)
            then Some (ncmpcpp_directory (Config (globals w)) @ ''bindings'')
            else expand_home (env_home w) (as_value (vm_bindings vm))) = Some bp \<and>
       \<not> fst (Bindings_read ext bp (globals w)) \<and>
       r = (Exit 1, w\<lparr>globals := snd (Bindings_read ext bp (globals w)), calls := calls w @ [BindingsRead bp False]\<rparr>)"
  by (auto simp: read_bindings_def Let_def expand_home_def split: if_splits option.splits)

lemma read_bindings_Inr:
  "read_bindings ext vm w = Inr w1 \<Longrightarrow>
     \<exists>bp. (if defaulted (vm_bindings vm)
            then Some (ncmpcpp_directory (Config (globals w)) @ ''bindings'')
            else expand_home (env_home w) (as_value (vm_bindings vm))) = Some bp \<and>
       fst (Bindings_read ext bp (globals w)) \<and>
       w1 = w\<lparr>globals := Bindings_generateDefaults ext (snd (Bindings_read ext bp (globals w))),
              calls := calls w @ [BindingsRead bp True, GenerateDefaults]\<rparr>"
  by (auto simp: read_bindings_def Let_def split: if_splits option.splits)

lemma create_one_directory_Inl:
  "create_one_directory ext dir w = Inl r \<Longrightarrow>
     fst r = Exit 1 \<and> calls (snd r) = calls w @ [CreateDirectory dir False]"
  by (auto simp: create_one_directory_def catch_exception_def split: sum.splits)

lemma create_one_directory_Inr:
  "create_one_directory ext dir w = Inr w1 \<Longrightarrow>
     calls w1 = calls w @ [CreateDirectory dir True] \<and>
     Config (globals w1) = Config (globals w) \<and> Mpd (globals w1) = Mpd (globals w) \<and>
     env_home w1 = env_home w \<and> cout w1 = cout w \<and> cerr w1 = cerr w"
  by (auto simp: create_one_directory_def split: sum.splits)

lemma create_directories_Inl:
  "create_directories ext w = Inl r \<Longrightarrow>
     fst r = Exit 1 \<and>
     (calls (snd r) = calls w @ [CreateDirectory (ncmpcpp_directory (Config (globals w))) False] \<or>
      calls (snd r) = calls w @ [CreateDirectory (ncmpcpp_directory (Config (globals w))) True,
                                 CreateDirectory (lyrics_directory (Config (globals w))) False])"
  by (auto simp: create_directories_def split: sum.splits
           dest!: create_one_directory_Inl create_one_directory_Inr)

lemma create_directories_Inr:
  "create_directories ext w = Inr w1 \<Longrightarrow>
     calls w1 = calls w @ [CreateDirectory (ncmpcpp_directory (Config (globals w))) True,
                           CreateDirectory (lyrics_directory (Config (globals w))) True] \<and>
     Config (globals w1) = Config (globals w) \<and> Mpd (globals w1) = Mpd (globals w) \<and>
     env_home w1 = env_home w \<and> cout w1 = cout w \<and> cerr w1 = cerr w"
  by (auto simp: create_directories_def split: sum.splits
           dest!: create_one_directory_Inr)

lemma connection_details_Inl:
  "connection_details ext getenv vm w = Inl r \<Longrightarrow>
     (\<exists>p. getenv ''MPD_PORT'' = Some p \<and> lexical_cast_int ext p = None) \<and>
     fst r = Exit 1 \<and> calls (snd r) = calls w \<and>
     cerr (snd r) = cerr w @ ''Error while processing configuration: '' @ bad_lexical_cast @ ''\<newline>''"
  by (auto simp: connection_details_def catch_exception_def on_Mpd_def Let_def
           split: option.splits sum.splits)

lemma connection_details_Inr:
  "connection_details ext getenv vm w = Inr w1 \<Longrightarrow>
     calls w1 = calls w \<and> cerr w1 = cerr w \<and> cout w1 = cout w \<and> env_home w1 = env_home w \<and>
     Config (globals w1) = Config (globals w) \<and> other (globals w1) = other (globals w) \<and>
     (\<forall>p. getenv ''MPD_PORT'' = Some p \<longrightarrow> lexical_cast_int ext p \<noteq> None) \<and>
     m_port (Mpd (globals w1)) =
       (if \<not> defaulted (vm_port vm) then as_value (vm_port vm)
        else (case getenv ''MPD_PORT'' of
                None \<Rightarrow> m_port (Mpd (globals w))
              | Some p \<Rightarrow> the (lexical_cast_int ext p))) \<and>
     m_host (Mpd (globals w1)) =
       (if \<not> defaulted (vm_host vm) then as_value (vm_host vm)
        else (case getenv ''MPD_HOST'' of
                None \<Rightarrow> m_host (Mpd (globals w))
              | Some h \<Rightarrow> h)) \<and>
     m_timeout (Mpd (globals w1)) = mpd_connection_timeout (Config (globals w))"
  by (auto simp: connection_details_def on_Mpd_def Let_def SetHostname_def SetPort_def
                 SetTimeout_def
           split: option.splits sum.splits)

lemma startup_screen_Inl:
  "startup_screen ext vm w = Inl r \<Longrightarrow>
     \<exists>s. vm_screen vm = Some s \<and> stringtoStartupScreenType ext s = Unknown \<and>
       fst r = Exit 1 \<and> calls (snd r) = calls w \<and>
       cerr (snd r) = cerr w @ ''Unknown screen: '' @ s @ ''\<newline>''"
  by (auto simp: startup_screen_def on_Config_def Let_def split: option.splits if_splits)

lemma startup_screen_Inr:
  "startup_screen ext vm w = Inr w1 \<Longrightarrow>
     (\<forall>s. vm_screen vm = Some s \<longrightarrow> stringtoStartupScreenType ext s \<noteq> Unknown \<and>
        startup_screen_type (Config (globals w1)) = stringtoStartupScreenType ext s) \<and>
     calls w1 = calls w \<and> cerr w1 = cerr w \<and> cout w1 = cout w \<and>
     Mpd (globals w1) = Mpd (globals w)"
  by (auto simp: startup_screen_def on_Config_def Let_def split: option.splits if_splits)

lemma startup_slave_screen_Inl:
  "startup_slave_screen ext vm w = Inl r \<Longrightarrow>
     \<exists>s. vm_slave_screen vm = Some s \<and> stringtoStartupScreenType ext s = Unknown \<and>
       fst r = Exit 1 \<and> calls (snd r) = calls w \<and>
       cerr (snd r) = cerr w @ ''Unknown slave screen: '' @ s @ ''\<newline>''"
  by (auto simp: startup_slave_screen_def on_Config_def Let_def split: option.splits if_splits)

lemma startup_slave_screen_Inr:
  "startup_slave_screen ext vm w = Inr w1 \<Longrightarrow>
     (\<forall>s. vm_slave_screen vm = Some s \<longrightarrow> stringtoStartupScreenType ext s \<noteq> Unknown \<and>
        startup_slave_screen_type (Config (globals w1)) = stringtoStartupScreenType ext s) \<and>
     calls w1 = calls w \<and> cerr w1 = cerr w \<and> cout w1 = cout w \<and>
     Mpd (globals w1) = Mpd (globals w)"
  by (auto simp: startup_slave_screen_def on_Config_def Let_def split: option.splits if_splits)

section \<open>The runs of \<open>configure\<close>\<close>

lemma configure_parse_error:
  "parse_command_line ext args = Inl what \<Longrightarrow>
     configure ext getenv argv0 args w = catch_exception what w"
  by (simp add: configure_def)

lemma configure_help:
  "parse_command_line ext args = Inr po \<Longrightarrow> opt_help po \<Longrightarrow>
     configure ext getenv argv0 args w =
       (Return False, w\<lparr>cout := cout w @ usage_text ext argv0 (default_config_paths getenv)\<rparr>)"
  by (simp add: configure_def store_def Let_def)

lemma configure_version:
  "parse_command_line ext args = Inr po \<Longrightarrow> \<not> opt_help po \<Longrightarrow> opt_version po \<Longrightarrow>
     configure ext getenv argv0 args w =
       (Return False, w\<lparr>cout := cout w @ version_text (build ext)\<rparr>)"
  by (simp add: configure_def store_def Let_def)

lemma configure_blocks:
  assumes "parse_command_line ext args = Inr po" "\<not> opt_help po" "\<not> opt_version po"
  shows "configure ext getenv argv0 args w =
    (case get_home_directory getenv w of Inl r \<Rightarrow> r | Inr w \<Rightarrow>
    (case read_configuration ext (store po (default_config_paths getenv)) w of Inl r \<Rightarrow> r | Inr w \<Rightarrow>
    (case read_bindings ext (store po (default_config_paths getenv)) w of Inl r \<Rightarrow> r | Inr w \<Rightarrow>
    (case create_directories ext w of Inl r \<Rightarrow> r | Inr w \<Rightarrow>
    (case connection_details ext getenv (store po (default_config_paths getenv)) w of Inl r \<Rightarrow> r | Inr w \<Rightarrow>
    (case startup_screen ext (store po (default_config_paths getenv)) w of Inl r \<Rightarrow> r | Inr w \<Rightarrow>
    (case startup_slave_screen ext (store po (default_config_paths getenv)) w of Inl r \<Rightarrow> r | Inr w \<Rightarrow>
    (Return True, w))))))))"
proof -
  have "vm_help (store po (default_config_paths getenv)) = False"
    and "vm_version (store po (default_config_paths getenv)) = False"
    using assms by (simp_all add: store_def)
  then show ?thesis
    using assms(1) by (simp add: configure_def Let_def)
qed

text \<open>
  A run that got past the command line either stops in one of the first four blocks or
  reaches the connection details with all five collaborator calls made and successful.
  \<open>g1\<close> is the globals after the configuration read, \<open>g3\<close> after the default bindings.
\<close>

lemma bootstrap_cases:
  fixes ext :: "'x externals"
  assumes run: "configure ext getenv argv0 args w = (out, w')"
    and parse: "parse_command_line ext args = Inr po"
    and no_help: "\<not> opt_help po" and no_version: "\<not> opt_version po"
    and vm: "vm = store po (default_config_paths getenv)"
    and ign: "ign = as_value (vm_ignore_config_errors vm)"
  obtains
    (no_home) "getenv ''HOME'' = None" "out = Return False"
      "w' = w\<lparr>env_home := None,
               cerr := cerr w @ ''Fatal error: HOME environment variable is not defined\<newline>''\<rparr>"
  | (config_failed) home cps where
      "getenv ''HOME'' = Some home"
      "expand_home_each (Some home) (as_value (vm_config vm)) = Some cps"
      "\<not> fst (Config_read ext cps ign (globals w))"
      "out = Exit 1" "calls w' = calls w @ [ConfigRead cps ign False]" "cerr w' = cerr w"
  | (bindings_failed) home cps bp g1 where
      "getenv ''HOME'' = Some home"
      "expand_home_each (Some home) (as_value (vm_config vm)) = Some cps"
      "fst (Config_read ext cps ign (globals w))"
      "g1 = snd (Config_read ext cps ign (globals w))"
      "(if defaulted (vm_bindings vm)
        then Some (ncmpcpp_directory (Config g1) @ ''bindings'')
        else expand_home (Some home) (as_value (vm_bindings vm))) = Some bp"
      "\<not> fst (Bindings_read ext bp g1)"
      "out = Exit 1"
      "calls w' = calls w @ [ConfigRead cps ign True, BindingsRead bp False]" "cerr w' = cerr w"
  | (directory_failed) home cps bp g1 g3 where
      "getenv ''HOME'' = Some home"
      "expand_home_each (Some home) (as_value (vm_config vm)) = Some cps"
      "fst (Config_read ext cps ign (globals w))"
      "g1 = snd (Config_read ext cps ign (globals w))"
      "(if defaulted (vm_bindings vm)
        then Some (ncmpcpp_directory (Config g1) @ ''bindings'')
        else expand_home (Some home) (as_value (vm_bindings vm))) = Some bp"
      "fst (Bindings_read ext bp g1)"
      "g3 = Bindings_generateDefaults ext (snd (Bindings_read ext bp g1))"
      "out = Exit 1"
      "calls w' = calls w @ [ConfigRead cps ign True, BindingsRead bp True, GenerateDefaults,
                             CreateDirectory (ncmpcpp_directory (Config g3)) False] \<or>
       calls w' = calls w @ [ConfigRead cps ign True, BindingsRead bp True, GenerateDefaults,
                             CreateDirectory (ncmpcpp_directory (Config g3)) True,
                             CreateDirectory (lyrics_directory (Config g3)) False]"
  | (bootstrapped) home cps bp g1 g3 w4 where
      "getenv ''HOME'' = Some home"
      "expand_home_each (Some home) (as_value (vm_config vm)) = Some cps"
      "fst (Config_read ext cps ign (globals w))"
      "g1 = snd (Config_read ext cps ign (globals w))"
      "(if defaulted (vm_bindings vm)
        then Some (ncmpcpp_directory (Config g1) @ ''bindings'')
        else expand_home (Some home) (as_value (vm_bindings vm))) = Some bp"
      "fst (Bindings_read ext bp g1)"
      "g3 = Bindings_generateDefaults ext (snd (Bindings_read ext bp g1))"
      "calls w4 = calls w @ [ConfigRead cps ign True, BindingsRead bp True, GenerateDefaults,
                             CreateDirectory (ncmpcpp_directory (Config g3)) True,
                             CreateDirectory (lyrics_directory (Config g3)) True]"
      "Config (globals w4) = Config g3" "Mpd (globals w4) = Mpd g3"
      "cerr w4 = cerr w" "cout w4 = cout w"
      "(out, w') =
         (case connection_details ext getenv vm w4 of Inl r \<Rightarrow> r | Inr w \<Rightarrow>
         (case startup_screen ext vm w of Inl r \<Rightarrow> r | Inr w \<Rightarrow>
         (case startup_slave_screen ext vm w of Inl r \<Rightarrow> r | Inr w \<Rightarrow>
         (Return True, w))))"
proof -
  note eq = configure_blocks [OF parse no_help no_version, of getenv argv0 w, folded vm]
  show thesis
  proof (cases "get_home_directory getenv w")
    case (Inl r)
    with get_home_directory_Inl [OF Inl] run eq show thesis
      by (intro no_home) auto
  next
    case w1: (Inr w1)
    from get_home_directory_Inr [OF w1] obtain home
      where home: "getenv ''HOME'' = Some home" and w1_eq: "w1 = w\<lparr>env_home := Some home\<rparr>"
      by auto
    show thesis
    proof (cases "read_configuration ext vm w1")
      case (Inl r)
      from read_configuration_Inl [OF Inl, of home] w1_eq obtain cps
        where "expand_home_each (Some home) (as_value (vm_config vm)) = Some cps"
          and "\<not> fst (Config_read ext cps ign (globals w))"
          and "r = (Exit 1, w1\<lparr>globals := snd (Config_read ext cps ign (globals w1)),
                      calls := calls w1 @ [ConfigRead cps ign False]\<rparr>)"
        by (auto simp: ign)
      with run eq w1 Inl home w1_eq show thesis
        by (intro config_failed [of home cps]) auto
    next
      case w2: (Inr w2)
      from read_configuration_Inr [OF w2] w1_eq obtain cps
        where cps: "expand_home_each (Some home) (as_value (vm_config vm)) = Some cps"
          and cr: "fst (Config_read ext cps ign (globals w))"
          and w2_raw: "w2 = w1\<lparr>globals := snd (Config_read ext cps ign (globals w)),
                      calls := calls w @ [ConfigRead cps ign True]\<rparr>"
        by (auto simp: ign)
      define g1 where "g1 = snd (Config_read ext cps ign (globals w))"
      have w2_eq: "w2 = w1\<lparr>globals := g1, calls := calls w @ [ConfigRead cps ign True]\<rparr>"
        using w2_raw by (simp add: g1_def)
      have home2: "env_home w2 = Some home" using w2_eq w1_eq by simp
      show thesis
      proof (cases "read_bindings ext vm w2")
        case (Inl r)
        from read_bindings_Inl [OF Inl home2] obtain bp
          where "(if defaulted (vm_bindings vm)
                  then Some (ncmpcpp_directory (Config (globals w2)) @ ''bindings'')
                  else expand_home (env_home w2) (as_value (vm_bindings vm))) = Some bp"
            and "\<not> fst (Bindings_read ext bp (globals w2))"
            and "r = (Exit 1, w2\<lparr>globals := snd (Bindings_read ext bp (globals w2)),
                        calls := calls w2 @ [BindingsRead bp False]\<rparr>)"
          by auto
        with run eq w1 w2 Inl home cps cr w2_eq w1_eq show thesis
          by (intro bindings_failed [of home cps g1 bp])
             (auto simp: g1_def split: if_splits)
      next
        case w3: (Inr w3)
        from read_bindings_Inr [OF w3] obtain bp
          where bp: "(if defaulted (vm_bindings vm)
                  then Some (ncmpcpp_directory (Config (globals w2)) @ ''bindings'')
                  else expand_home (env_home w2) (as_value (vm_bindings vm))) = Some bp"
            and br: "fst (Bindings_read ext bp (globals w2))"
            and w3_eq: "w3 = w2\<lparr>globals := Bindings_generateDefaults ext
                                   (snd (Bindings_read ext bp (globals w2))),
                        calls := calls w2 @ [BindingsRead bp True, GenerateDefaults]\<rparr>"
          by auto
        define g3 where "g3 = Bindings_generateDefaults ext (snd (Bindings_read ext bp g1))"
        have bp': "(if defaulted (vm_bindings vm)
            then Some (ncmpcpp_directory (Config g1) @ ''bindings'')
            else expand_home (Some home) (as_value (vm_bindings vm))) = Some bp"
          using bp by (simp add: w2_eq w1_eq split: if_splits)
        have br': "fst (Bindings_read ext bp g1)"
          using br by (simp add: w2_eq)
        have calls3: "calls w3 = calls w @ [ConfigRead cps ign True, BindingsRead bp True,
                                            GenerateDefaults]"
          and io3: "cerr w3 = cerr w" "cout w3 = cout w"
          and g3: "globals w3 = g3"
          using w3_eq w2_eq w1_eq by (simp_all add: g3_def)
        show thesis
        proof (cases "create_directories ext w3")
          case (Inl r)
          from create_directories_Inl [OF Inl] run eq w1 w2 w3 Inl calls3 g3
          have "out = Exit 1"
            and "calls w' = calls w @ [ConfigRead cps ign True, BindingsRead bp True,
                     GenerateDefaults, CreateDirectory (ncmpcpp_directory (Config g3)) False] \<or>
                 calls w' = calls w @ [ConfigRead cps ign True, BindingsRead bp True,
                     GenerateDefaults, CreateDirectory (ncmpcpp_directory (Config g3)) True,
                     CreateDirectory (lyrics_directory (Config g3)) False]"
            by auto
          with home cps cr bp' br' show thesis
            by (intro directory_failed [of home cps g1 bp g3]) (simp_all add: g1_def g3_def)
        next
          case w4: (Inr w4)
          from create_directories_Inr [OF w4] calls3 io3 g3
          have "calls w4 = calls w @ [ConfigRead cps ign True, BindingsRead bp True,
                     GenerateDefaults, CreateDirectory (ncmpcpp_directory (Config g3)) True,
                     CreateDirectory (lyrics_directory (Config g3)) True]"
              and "Config (globals w4) = Config g3" "Mpd (globals w4) = Mpd g3"
              and "cerr w4 = cerr w" "cout w4 = cout w"
            by auto
          moreover have "(out, w') =
             (case connection_details ext getenv vm w4 of Inl r \<Rightarrow> r | Inr w \<Rightarrow>
             (case startup_screen ext vm w of Inl r \<Rightarrow> r | Inr w \<Rightarrow>
             (case startup_slave_screen ext vm w of Inl r \<Rightarrow> r | Inr w \<Rightarrow>
             (Return True, w))))"
            using run eq w1 w2 w3 w4 by simp
          ultimately show thesis
            using home cps cr bp' br'
            by (intro bootstrapped [of home cps g1 bp g3 w4]) (simp_all add: g1_def g3_def)
        qed
      qed
    qed
  qed
qed

lemma finish_cases:
  fixes ext :: "'x externals"
  assumes tail: "(out, w') =
         (case connection_details ext getenv vm w4 of Inl r \<Rightarrow> r | Inr w \<Rightarrow>
         (case startup_screen ext vm w of Inl r \<Rightarrow> r | Inr w \<Rightarrow>
         (case startup_slave_screen ext vm w of Inl r \<Rightarrow> r | Inr w \<Rightarrow>
         (Return True, w))))"
  obtains
    (bad_port) p where
      "getenv ''MPD_PORT'' = Some p" "lexical_cast_int ext p = None"
      "out = Exit 1" "calls w' = calls w4"
      "cerr w' = cerr w4 @ ''Error while processing configuration: '' @ bad_lexical_cast @ ''\<newline>''"
  | (unknown_screen) s where
      "\<forall>p. getenv ''MPD_PORT'' = Some p \<longrightarrow> lexical_cast_int ext p \<noteq> None"
      "vm_screen vm = Some s" "stringtoStartupScreenType ext s = Unknown"
      "out = Exit 1" "calls w' = calls w4"
      "cerr w' = cerr w4 @ ''Unknown screen: '' @ s @ ''\<newline>''"
  | (unknown_slave_screen) s where
      "\<forall>p. getenv ''MPD_PORT'' = Some p \<longrightarrow> lexical_cast_int ext p \<noteq> None"
      "\<forall>p. vm_screen vm = Some p \<longrightarrow> stringtoStartupScreenType ext p \<noteq> Unknown"
      "vm_slave_screen vm = Some s" "stringtoStartupScreenType ext s = Unknown"
      "out = Exit 1" "calls w' = calls w4"
      "cerr w' = cerr w4 @ ''Unknown slave screen: '' @ s @ ''\<newline>''"
  | (success)
      "\<forall>p. getenv ''MPD_PORT'' = Some p \<longrightarrow> lexical_cast_int ext p \<noteq> None"
      "\<forall>p. vm_screen vm = Some p \<longrightarrow> stringtoStartupScreenType ext p \<noteq> Unknown"
      "\<forall>p. vm_slave_screen vm = Some p \<longrightarrow> stringtoStartupScreenType ext p \<noteq> Unknown"
      "out = Return True" "calls w' = calls w4" "cerr w' = cerr w4" "cout w' = cout w4"
      "m_port (Mpd (globals w')) =
         (if \<not> defaulted (vm_port vm) then as_value (vm_port vm)
          else (case getenv ''MPD_PORT'' of
                  None \<Rightarrow> m_port (Mpd (globals w4))
                | Some p \<Rightarrow> the (lexical_cast_int ext p)))"
      "m_host (Mpd (globals w')) =
         (if \<not> defaulted (vm_host vm) then as_value (vm_host vm)
          else (case getenv ''MPD_HOST'' of
                  None \<Rightarrow> m_host (Mpd (globals w4))
                | Some h \<Rightarrow> h))"
      "m_timeout (Mpd (globals w')) = mpd_connection_timeout (Config (globals w4))"
proof (cases "connection_details ext getenv vm w4")
  case (Inl r)
  from connection_details_Inl [OF Inl] obtain p
    where "getenv ''MPD_PORT'' = Some p" "lexical_cast_int ext p = None"
      and "fst r = Exit 1" "calls (snd r) = calls w4"
      and "cerr (snd r) =
             cerr w4 @ ''Error while processing configuration: '' @ bad_lexical_cast @ ''\<newline>''"
    by blast
  moreover have "r = (out, w')" using tail Inl by simp
  ultimately show thesis
    using bad_port [of p] by simp
next
  case w5: (Inr w5)
  note c5 = connection_details_Inr [OF w5]
  show thesis
  proof (cases "startup_screen ext vm w5")
    case (Inl r)
    from startup_screen_Inl [OF Inl] obtain s
      where "vm_screen vm = Some s" "stringtoStartupScreenType ext s = Unknown"
        and "fst r = Exit 1" "calls (snd r) = calls w5"
        and "cerr (snd r) = cerr w5 @ ''Unknown screen: '' @ s @ ''\<newline>''"
      by blast
    moreover have "r = (out, w')" using tail w5 Inl by simp
    ultimately show thesis
      using unknown_screen [of s] c5 by simp
  next
    case w6: (Inr w6)
    note c6 = startup_screen_Inr [OF w6]
    show thesis
    proof (cases "startup_slave_screen ext vm w6")
      case (Inl r)
      from startup_slave_screen_Inl [OF Inl] obtain s
        where "vm_slave_screen vm = Some s" "stringtoStartupScreenType ext s = Unknown"
          and "fst r = Exit 1" "calls (snd r) = calls w6"
          and "cerr (snd r) = cerr w6 @ ''Unknown slave screen: '' @ s @ ''\<newline>''"
        by blast
      moreover have "r = (out, w')" using tail w5 w6 Inl by simp
      ultimately show thesis
        using unknown_slave_screen [of s] c5 c6 by simp
    next
      case w7: (Inr w7)
      note c7 = startup_slave_screen_Inr [OF w7]
      have "out = Return True" "w' = w7" using tail w5 w6 w7 by simp_all
      with c5 c6 c7 show thesis
        using success by simp
    qed
  qed
qed

lemma store_simps:
  "vm_port (store po d) = variable 6600 (opt_port po)"
  "vm_host (store po d) = variable ''localhost'' (opt_host po)"
  "vm_bindings (store po d) = variable ''~/.ncmpcpp/bindings'' (opt_bindings po)"
  "vm_config (store po d) = variable d (opt_config po)"
  "vm_ignore_config_errors (store po d) = variable False (opt_ignore_config_errors po)"
  "vm_screen (store po d) = opt_screen po"
  "vm_slave_screen (store po d) = opt_slave_screen po"
  by (simp_all add: store_def)

lemma variable_simps:
  "defaulted (variable d given) = (given = None)"
  "as_value (variable d given) = (case given of None \<Rightarrow> d | Some v \<Rightarrow> v)"
  by (simp_all add: variable_def split: option.splits)

lemma configure_without_home:
  assumes "parse_command_line ext args = Inr po" "\<not> opt_help po" "\<not> opt_version po"
    and "getenv ''HOME'' = None"
  shows "configure ext getenv argv0 args w =
    (Return False, w\<lparr>env_home := None,
        cerr := cerr w @ ''Fatal error: HOME environment variable is not defined\<newline>''\<rparr>)"
  using assms(4)
  by (simp add: configure_blocks [OF assms(1-3)] get_home_directory_def)

lemma configure_trace:
  fixes ext :: "'x externals"
  assumes run: "configure ext getenv argv0 args w = (out, w')"
  obtains
    (quiet) "calls w' = calls w" "out = Exit 1 \<or> out = Return False"
  | (config_read_failed) cps ign where
      "calls w' = calls w @ [ConfigRead cps ign False]" "out = Exit 1"
  | (bindings_read_failed) cps ign bp where
      "calls w' = calls w @ [ConfigRead cps ign True, BindingsRead bp False]" "out = Exit 1"
  | (create_directory_failed) cps ign bp g3 where
      "g3 = Bindings_generateDefaults ext
              (snd (Bindings_read ext bp (snd (Config_read ext cps ign (globals w)))))"
      "calls w' = calls w @ [ConfigRead cps ign True, BindingsRead bp True, GenerateDefaults,
                             CreateDirectory (ncmpcpp_directory (Config g3)) False]
       \<or> calls w' = calls w @ [ConfigRead cps ign True, BindingsRead bp True, GenerateDefaults,
                             CreateDirectory (ncmpcpp_directory (Config g3)) True,
                             CreateDirectory (lyrics_directory (Config g3)) False]"
      "out = Exit 1"
  | (all_calls_made) cps ign bp g3 where
      "g3 = Bindings_generateDefaults ext
              (snd (Bindings_read ext bp (snd (Config_read ext cps ign (globals w)))))"
      "calls w' = calls w @ [ConfigRead cps ign True, BindingsRead bp True, GenerateDefaults,
                             CreateDirectory (ncmpcpp_directory (Config g3)) True,
                             CreateDirectory (lyrics_directory (Config g3)) True]"
      "out = Exit 1 \<or> out = Return True"
proof (cases "parse_command_line ext args")
  case (Inl what)
  from configure_parse_error [OF Inl, of getenv argv0 w] run
  have "calls w' = calls w" "out = Exit 1 \<or> out = Return False"
    by (auto simp: catch_exception_def)
  then show thesis by (rule quiet)
next
  case (Inr po)
  show thesis
  proof (cases "opt_help po")
    case True
    from configure_help [OF Inr True, of getenv argv0 w] run
    have "calls w' = calls w" "out = Exit 1 \<or> out = Return False" by auto
    then show thesis by (rule quiet)
  next
    case nh: False
    show thesis
    proof (cases "opt_version po")
      case True
      from configure_version [OF Inr nh True, of getenv argv0 w] run
      have "calls w' = calls w" "out = Exit 1 \<or> out = Return False" by auto
      then show thesis by (rule quiet)
    next
      case nv: False
      from run Inr nh nv refl refl show thesis
      proof (cases rule: bootstrap_cases)
        case no_home
        from no_home(2,3) have "calls w' = calls w" "out = Exit 1 \<or> out = Return False"
          by simp_all
        then show thesis by (rule quiet)
      next
        case (config_failed home cps)
        from config_failed(5,4) show thesis by (rule config_read_failed)
      next
        case (bindings_failed home cps bp g1)
        from bindings_failed(8,7) show thesis by (rule bindings_read_failed)
      next
        case (directory_failed home cps bp g1 g3)
        from directory_failed(7) have "g3 = Bindings_generateDefaults ext
              (snd (Bindings_read ext bp (snd (Config_read ext cps
                 (as_value (vm_ignore_config_errors (store po (default_config_paths getenv))))
                 (globals w)))))"
          unfolding directory_failed(4) .
        from this directory_failed(9,8) show thesis by (rule create_directory_failed)
      next
        case (bootstrapped home cps bp g1 g3 w4)
        from bootstrapped(13) have fin: "calls w' = calls w4" "out = Exit 1 \<or> out = Return True"
          by (cases rule: finish_cases; simp)+
        from bootstrapped(7) have "g3 = Bindings_generateDefaults ext
              (snd (Bindings_read ext bp (snd (Config_read ext cps
                 (as_value (vm_ignore_config_errors (store po (default_config_paths getenv))))
                 (globals w)))))"
          unfolding bootstrapped(4) .
        from this bootstrapped(8) [folded fin(1)] fin(2) show thesis
          by (rule all_calls_made)
      qed
    qed
  qed
qed

text \<open>
  The assertion of \<open>expand_home\<close> never fails inside \<open>configure\<close>: the home directory is
  resolved before the first path is expanded.
\<close>

lemma configure_never_aborts: "fst (configure ext getenv argv0 args w) \<noteq> Abort"
proof -
  obtain out w' where run: "configure ext getenv argv0 args w = (out, w')"
    by (cases "configure ext getenv argv0 args w")
  then have "out \<noteq> Abort"
    by (cases rule: configure_trace) auto
  with run show ?thesis by simp
qed

lemma made_calls_past_command_line:
  assumes run: "configure ext getenv argv0 args w = (out, w')"
    and parse: "parse_command_line ext args = Inr po"
    and made: "calls w' \<noteq> calls w"
  shows "\<not> opt_help po \<and> \<not> opt_version po"
proof -
  have nh: "\<not> opt_help po"
    using configure_help [OF parse, of getenv argv0 w] run made by auto
  have "\<not> opt_version po"
    using configure_version [OF parse nh, of getenv argv0 w] run made by auto
  with nh show ?thesis ..
qed

section \<open>Runs in the concrete setting\<close>

lemmas run_defs =
  sample_run_def configure_def default_config_paths_def xdg_config_home_def store_def
  variable_def get_home_directory_def read_configuration_def read_bindings_def
  create_directories_def create_one_directory_def connection_details_def startup_screen_def
  startup_slave_screen_def catch_exception_def on_Mpd_def on_Config_def expand_home_def
  SetHostname_def SetPort_def SetTimeout_def usage_text_def version_text_def
  sample_externals_def sample_world_def sample_env_def sample_build_def sample_Config_read_def
  no_options_def set_option_def decimal_int_def digit_value_def Let_def

lemma sample_parse:
  "parse_command_line sample_externals [] = Inr no_options"
  "parse_command_line sample_externals [''--help''] = Inr (no_options\<lparr>opt_help := True\<rparr>)"
  "parse_command_line sample_externals [''--version''] = Inr (no_options\<lparr>opt_version := True\<rparr>)"
  "parse_command_line sample_externals [''--help'', ''--version'']
     = Inr (no_options\<lparr>opt_help := True, opt_version := True\<rparr>)"
  "parse_command_line sample_externals [''--port'', ''8000'']
     = Inr (no_options\<lparr>opt_port := Some 8000\<rparr>)"
  "parse_command_line sample_externals [''--bindings'', ''broken'']
     = Inr (no_options\<lparr>opt_bindings := Some ''broken''\<rparr>)"
  "parse_command_line sample_externals [''--bindings'', ''~/keys'']
     = Inr (no_options\<lparr>opt_bindings := Some ''~/keys''\<rparr>)"
  "parse_command_line sample_externals [''--screen'', ''bogus'']
     = Inr (no_options\<lparr>opt_screen := Some ''bogus''\<rparr>)"
  "parse_command_line sample_externals [''--screen'', ''playlist'']
     = Inr (no_options\<lparr>opt_screen := Some ''playlist''\<rparr>)"
  "parse_command_line sample_externals [''--slave-screen'', ''bogus'']
     = Inr (no_options\<lparr>opt_slave_screen := Some ''bogus''\<rparr>)"
  by (simp_all add: sample_externals_def set_option_def decimal_int_def digit_value_def)

lemma sample_calls:
  "calls (snd (sample_run sample_env [])) =
     [ConfigRead [''/home/u/.ncmpcpp/config'', ''/home/u/.config/ncmpcpp/config''] False True,
      BindingsRead ''/srv/ncmpcpp/bindings'' True, GenerateDefaults,
      CreateDirectory ''/srv/ncmpcpp/'' True, CreateDirectory ''/srv/lyrics/'' True]"
  "calls (snd (sample_run sample_env [''--bindings'', ''broken''])) =
     [ConfigRead [''/home/u/.ncmpcpp/config'', ''/home/u/.config/ncmpcpp/config''] False True,
      BindingsRead ''broken'' False]"
  "calls (snd (sample_run sample_env [''--bindings'', ''~/keys''])) =
     [ConfigRead [''/home/u/.ncmpcpp/config'', ''/home/u/.config/ncmpcpp/config''] False True,
      BindingsRead ''/home/u/keys'' True, GenerateDefaults,
      CreateDirectory ''/srv/ncmpcpp/'' True, CreateDirectory ''/srv/lyrics/'' True]"
  "calls (snd (sample_run sample_env [''--screen'', ''bogus''])) =
     [ConfigRead [''/home/u/.ncmpcpp/config'', ''/home/u/.config/ncmpcpp/config''] False True,
      BindingsRead ''/srv/ncmpcpp/bindings'' True, GenerateDefaults,
      CreateDirectory ''/srv/ncmpcpp/'' True, CreateDirectory ''/srv/lyrics/'' True]"
  "calls (snd (sample_run sample_env [''--screen'', ''playlist''])) =
     [ConfigRead [''/home/u/.ncmpcpp/config'', ''/home/u/.config/ncmpcpp/config''] False True,
      BindingsRead ''/srv/ncmpcpp/bindings'' True, GenerateDefaults,
      CreateDirectory ''/srv/ncmpcpp/'' True, CreateDirectory ''/srv/lyrics/'' True]"
  "calls (snd (sample_run sample_env [''--slave-screen'', ''bogus''])) =
     [ConfigRead [''/home/u/.ncmpcpp/config'', ''/home/u/.config/ncmpcpp/config''] False True,
      BindingsRead ''/srv/ncmpcpp/bindings'' True, GenerateDefaults,
      CreateDirectory ''/srv/ncmpcpp/'' True, CreateDirectory ''/srv/lyrics/'' True]"
  by (simp_all add: run_defs)

lemma sample_run_collapse:
  "configure sample_externals env ''ncmpcpp'' args sample_world
     = (fst (sample_run env args), snd (sample_run env args))"
  by (simp add: sample_run_def)

lemma sample_success:
  "fst (sample_run (sample_env(''MPD_PORT'' \<mapsto> ''7000'')) [''--port'', ''8000'']) = Return True"
  "fst (sample_run (sample_env(''MPD_PORT'' \<mapsto> ''7000'')) []) = Return True"
  by (simp_all add: run_defs)

section \<open>Home expansion\<close>

text \<open>
  C9. \<open>expand_home\<close> replaces the single leading \<open>~\<close> and nothing else: a path whose first
  character is \<open>~\<close> becomes the home directory followed by the rest of the path, whatever
  the rest is (\<open>~user/x\<close> included); the empty path and every path that starts with another
  character come back as they are, whatever \<open>~\<close> they hold further on.
\<close>

theorem expand_home_leading_tilde_only:
  "expand_home (Some home) (CHR ''~'' # rest) = Some (home @ rest)
   \<and> expand_home (Some home) [] = Some []
   \<and> (c \<noteq> CHR ''~'' \<longrightarrow> expand_home (Some home) (c # rest) = Some (c # rest))"
  by (simp add: expand_home_def)

theorem expand_home_leading_tilde_only_witness:
  "CHR ''a'' \<noteq> CHR ''~''
   \<and> expand_home (Some ''/home/u'') ''~user/x'' = Some ''/home/uuser/x''
   \<and> expand_home (Some ''/home/u'') ''a/~b'' = Some ''a/~b''"
  using expand_home_leading_tilde_only [of "''/home/u''" "''user/x''" "CHR ''a''"]
    expand_home_leading_tilde_only [of "''/home/u''" "''/~b''" "CHR ''a''"]
  by simp

text \<open>
  C8, as amended. A path that does not start with \<open>~\<close> is left unchanged; and when the
  resolved home directory is not empty and does not itself start with \<open>~\<close>, expanding an
  expanded path again changes nothing.
\<close>

theorem expand_home_idempotent:
  "(path = [] \<or> hd path \<noteq> CHR ''~'' \<longrightarrow> expand_home (Some home) path = Some path)
   \<and> (home \<noteq> [] \<and> hd home \<noteq> CHR ''~'' \<longrightarrow>
        (\<exists>p. expand_home (Some home) path = Some p \<and> expand_home (Some home) p = Some p))"
  by (auto simp: expand_home_def)

theorem expand_home_idempotent_witness:
  "hd ''/home/u'' \<noteq> CHR ''~'' \<and> ''/home/u'' \<noteq> []
   \<and> expand_home (Some ''/home/u'') ''~/x'' = Some ''/home/u/x''
   \<and> expand_home (Some ''/home/u'') ''/home/u/x'' = Some ''/home/u/x''"
  using expand_home_idempotent [of "''~/x''" "''/home/u''"]
    expand_home_idempotent [of "''/home/u/x''" "''/home/u''"]
  by (simp add: expand_home_def)

text \<open>
  C8 as stated fails when the home directory itself starts with \<open>~\<close>: with \<open>HOME=~a\<close> the
  path \<open>~\<close> expands to \<open>~a\<close>, and expanding that again gives \<open>~aa\<close>.
\<close>

theorem expand_home_not_idempotent:
  "expand_home (Some ''~a'') ''~'' = Some ''~a''
   \<and> expand_home (Some ''~a'') ''~a'' = Some ''~aa''
   \<and> ''~aa'' \<noteq> ''~a''"
  by (simp add: expand_home_def)

section \<open>Help and version\<close>

text \<open>
  C4, as amended. When the command line has been parsed and stored without an exception and
  holds \<open>--help\<close> (or, without \<open>--help\<close>, \<open>--version\<close>), \<open>configure\<close> prints the usage text
  (or the version text) and returns false, on which its caller exits with status 0. Nothing
  else happens: no configuration file is read, no directory is created, no bindings are
  loaded, the globals and the home directory variable are untouched, and nothing is written
  to the error stream. The test comes right after the command line has been parsed and
  stored, before every other block. Both texts are written out in full.
\<close>

theorem help_or_version_short_circuit:
  assumes "parse_command_line ext args = Inr po" and "opt_help po \<or> opt_version po"
  shows "\<exists>w'. configure ext getenv argv0 args w = (Return False, w')
     \<and> caller_of_configure (fst (configure ext getenv argv0 args w)) = Exits 0
     \<and> cout w' = cout w @
          (if opt_help po
           then ''Usage: '' @ argv0 @ '' [options]...\<newline>''
                @ options_text ext [''~/.ncmpcpp/config'', xdg_config_home getenv @ ''ncmpcpp/config'']
                @ ''\<newline>''
           else ''ncmpcpp '' @ VERSION (build ext) @ ''\<newline>\<newline>''
                @ ''optional screens compiled-in:\<newline>''
                @ (if HAVE_TAGLIB_H (build ext)
                   then '' - tag editor\<newline> - tiny tag editor\<newline>'' else [])
                @ (if HAVE_CURL_CURL_H (build ext) then '' - artist info\<newline>'' else [])
                @ (if ENABLE_OUTPUTS (build ext) then '' - outputs\<newline>'' else [])
                @ (if ENABLE_VISUALIZER (build ext) then '' - visualizer\<newline>'' else [])
                @ (if ENABLE_CLOCK (build ext) then '' - clock\<newline>'' else [])
                @ ''\<newline>encoding detection: ''
                @ (if HAVE_LANGINFO_H (build ext) then ''enabled'' else ''disabled'')
                @ ''\<newline>built with support for:''
                @ (if HAVE_CURL_CURL_H (build ext) then '' curl'' else [])
                @ (if HAVE_FFTW3_H (build ext) then '' fftw'' else [])
                @ '' ncurses''
                @ (if HAVE_TAGLIB_H (build ext) then '' taglib'' else [])
                @ (if NCMPCPP_UNICODE (build ext) then '' unicode'' else [])
                @ ''\<newline>'')
     \<and> calls w' = calls w \<and> globals w' = globals w \<and> env_home w' = env_home w
     \<and> cerr w' = cerr w"
proof (cases "opt_help po")
  case True
  from configure_help [OF assms(1) True, of getenv argv0 w] True show ?thesis
    by (simp add: usage_text_def default_config_paths_def caller_of_configure_def)
next
  case False
  with assms(2) have "opt_version po" by simp
  from configure_version [OF assms(1) False this, of getenv argv0 w] False show ?thesis
    by (simp add: version_text_def caller_of_configure_def)
qed

theorem help_or_version_short_circuit_witness:
  "sample_run sample_env [''--help'']
     = (Return False, sample_world\<lparr>cout := ''Usage: ncmpcpp [options]...\<newline>Options:\<newline>''\<rparr>)
   \<and> caller_of_configure (fst (sample_run sample_env [''--help''])) = Exits 0
   \<and> sample_run sample_env [''--version'']
     = (Return False,
        sample_world\<lparr>cout :=
          ''ncmpcpp 0.6\<newline>\<newline>optional screens compiled-in:\<newline>\<newline>encoding detection: disabled\<newline>built with support for: ncurses\<newline>''\<rparr>)
   \<and> caller_of_configure (fst (sample_run sample_env [''--version''])) = Exits 0
   \<and> configure (sample_externals\<lparr>build := full_build\<rparr>) sample_env ''ncmpcpp'' [''--version'']
         sample_world
     = (Return False,
        sample_world\<lparr>cout :=
          ''ncmpcpp 0.6\<newline>\<newline>optional screens compiled-in:\<newline> - tag editor\<newline> - tiny tag editor\<newline> - artist info\<newline> - outputs\<newline> - visualizer\<newline> - clock\<newline>\<newline>encoding detection: enabled\<newline>built with support for: curl fftw ncurses taglib unicode\<newline>''\<rparr>)"
proof -
  have h: "opt_help (no_options\<lparr>opt_help := True\<rparr>) \<or> opt_version (no_options\<lparr>opt_help := True\<rparr>)"
    and v: "opt_help (no_options\<lparr>opt_version := True\<rparr>)
            \<or> opt_version (no_options\<lparr>opt_version := True\<rparr>)"
    by simp_all
  have p: "parse_command_line (sample_externals\<lparr>build := full_build\<rparr>) [''--version'']
      = Inr (no_options\<lparr>opt_version := True\<rparr>)"
    using sample_parse(3) by (simp add: sample_externals_def)
  from help_or_version_short_circuit [OF sample_parse(2) h, of sample_env "''ncmpcpp''" sample_world]
    help_or_version_short_circuit [OF sample_parse(3) v, of sample_env "''ncmpcpp''" sample_world]
    help_or_version_short_circuit [OF p v, of sample_env "''ncmpcpp''" sample_world]
  show ?thesis
    by (simp add: run_defs full_build_def caller_of_configure_def)
qed

text \<open>
  C4 as stated fails for a command line that holds \<open>--help\<close> and does not parse: the
  exception of the parser, for the unknown option \<open>--bogus\<close> or for the port \<open>abc\<close>, is
  thrown at line 92, before \<open>--help\<close> is tested, and caught at the end of \<open>configure\<close>.
  Startup ends with \<open>exit(1)\<close>, no help text is printed and the error is reported.
\<close>

theorem help_with_unparsable_command_line:
  "fst (sample_run sample_env [''--help'', ''--bogus'']) = Exit 1
   \<and> caller_of_configure (fst (sample_run sample_env [''--help'', ''--bogus''])) = Exits 1
   \<and> cout (snd (sample_run sample_env [''--help'', ''--bogus''])) = []
   \<and> cerr (snd (sample_run sample_env [''--help'', ''--bogus'']))
       = ''Error while processing configuration: unrecognised option --bogus\<newline>''
   \<and> fst (sample_run sample_env [''--help'', ''--port'', ''abc'']) = Exit 1
   \<and> cout (snd (sample_run sample_env [''--help'', ''--port'', ''abc''])) = []"
  by (simp add: run_defs caller_of_configure_def)

text \<open>
  C10. When the command line holds both \<open>--help\<close> and \<open>--version\<close>, \<open>configure\<close> prints the
  usage text only and returns false: the version text is not printed.
\<close>

theorem help_before_version:
  assumes "parse_command_line ext args = Inr po" and "opt_help po" and "opt_version po"
  shows "configure ext getenv argv0 args w =
           (Return False, w\<lparr>cout := cout w @ usage_text ext argv0 (default_config_paths getenv)\<rparr>)"
  using assms(1,2) by (rule configure_help)

theorem help_before_version_witness:
  "sample_run sample_env [''--help'', ''--version'']
     = (Return False, sample_world\<lparr>cout := ''Usage: ncmpcpp [options]...\<newline>Options:\<newline>''\<rparr>)"
proof -
  have h: "opt_help (no_options\<lparr>opt_help := True, opt_version := True\<rparr>)"
    and v: "opt_version (no_options\<lparr>opt_help := True, opt_version := True\<rparr>)"
    by simp_all
  from help_before_version [OF sample_parse(4) h v, of sample_env "''ncmpcpp''" sample_world]
  show ?thesis
    by (simp add: run_defs)
qed

section \<open>The home directory\<close>

text \<open>
  C2. Without \<open>HOME\<close> in the environment (and without \<open>--help\<close> or \<open>--version\<close>),
  \<open>configure\<close> writes its diagnostic and makes no call at all, so no file is read; but it
  does not call \<open>exit(1)\<close>: it returns false, the value it returns for \<open>--help\<close>.
\<close>

theorem missing_home_returns_false:
  "sample_run Map.empty []
     = (Return False,
        sample_world\<lparr>cerr := ''Fatal error: HOME environment variable is not defined\<newline>''\<rparr>)
   \<and> fst (sample_run Map.empty [''--help'']) = Return False
   \<and> fst (sample_run sample_env [''--screen'', ''bogus'']) = Exit 1"
  by (simp add: run_defs)

section \<open>Bindings and directories\<close>



text \<open>
  C3, as amended. A failure of \<open>Bindings.read\<close> ends startup with \<open>exit(1)\<close>, as a failure
  of \<open>Config.read\<close> does, and then no default bindings are generated. The default bindings
  are generated only after \<open>Bindings.read\<close> has succeeded, and every run that returns true
  has generated them.
\<close>

theorem bindings_failure_is_fatal:
  fixes ext :: "'x externals"
  assumes run: "configure ext getenv argv0 args w = (out, w')"
    and new: "calls w' = calls w @ new"
  shows "(BindingsRead bp False \<in> set new \<longrightarrow> out = Exit 1 \<and> GenerateDefaults \<notin> set new)
    \<and> (ConfigRead cps ign False \<in> set new \<longrightarrow> out = Exit 1)
    \<and> (GenerateDefaults \<in> set new \<longrightarrow> (\<exists>p. BindingsRead p True \<in> set new))
    \<and> (out = Return True \<longrightarrow> GenerateDefaults \<in> set new)"
  using run
proof (cases rule: configure_trace)
  case quiet
  with new have "new = []" by simp
  with quiet show ?thesis by auto
next
  case (config_read_failed cps' ign')
  with new have "new = [ConfigRead cps' ign' False]" by simp
  with config_read_failed show ?thesis by simp
next
  case (bindings_read_failed cps' ign' bp')
  with new have "new = [ConfigRead cps' ign' True, BindingsRead bp' False]" by simp
  with bindings_read_failed show ?thesis by simp
next
  case (create_directory_failed cps' ign' bp' g3)
  with new have "GenerateDefaults \<in> set new" "BindingsRead bp' True \<in> set new"
    "BindingsRead bp False \<notin> set new" "ConfigRead cps ign False \<notin> set new"
    by auto
  with create_directory_failed show ?thesis by blast
next
  case (all_calls_made cps' ign' bp' g3)
  with new have "GenerateDefaults \<in> set new" "BindingsRead bp' True \<in> set new"
    "BindingsRead bp False \<notin> set new" "ConfigRead cps ign False \<notin> set new"
    by auto
  then show ?thesis by blast
qed

theorem bindings_failure_is_fatal_witness:
  "fst (sample_run sample_env [''--bindings'', ''broken'']) = Exit 1
   \<and> GenerateDefaults \<notin> set (calls (snd (sample_run sample_env [''--bindings'', ''broken''])))"
proof -
  have nil: "calls sample_world = []" by (simp add: sample_world_def)
  have new: "calls (snd (sample_run sample_env [''--bindings'', ''broken''])) = calls sample_world @
      [ConfigRead [''/home/u/.ncmpcpp/config'', ''/home/u/.config/ncmpcpp/config''] False True,
       BindingsRead ''broken'' False]"
    by (simp add: sample_calls nil)
  from bindings_failure_is_fatal [OF sample_run_collapse new, of "''broken''"]
  show ?thesis
    by (simp add: sample_calls)
qed

text \<open>
  C3 as stated fails: when \<open>Bindings.read\<close> returns false for the path \<open>broken\<close>, startup
  ends with \<open>exit(1)\<close> right after that call, and no default bindings are generated.
\<close>

theorem bindings_failure_exits:
  "fst (sample_run sample_env [''--bindings'', ''broken'']) = Exit 1
   \<and> calls (snd (sample_run sample_env [''--bindings'', ''broken''])) =
       [ConfigRead [''/home/u/.ncmpcpp/config'', ''/home/u/.config/ncmpcpp/config''] False True,
        BindingsRead ''broken'' False]"
  by (simp add: run_defs)

text \<open>
  C5, as amended. The bindings are read, and the default bindings generated, before any
  directory is created: whenever \<open>configure\<close> calls \<open>create_directory\<close>, the calls it has
  made are a successful \<open>Config.read\<close>, a successful \<open>Bindings.read\<close>, \<open>generateDefaults\<close>, then
  the main directory and, if that did not fail, the lyrics directory, both as \<open>Config\<close>
  names them after the default bindings.
\<close>

theorem directories_after_bindings:
  fixes ext :: "'x externals"
  assumes run: "configure ext getenv argv0 args w = (out, w')"
    and new: "calls w' = calls w @ new"
    and dir: "CreateDirectory d k \<in> set new"
  shows "\<exists>cps ign bp g3 k1 k2.
      g3 = Bindings_generateDefaults ext
             (snd (Bindings_read ext bp (snd (Config_read ext cps ign (globals w)))))
    \<and> (new = [ConfigRead cps ign True, BindingsRead bp True, GenerateDefaults,
               CreateDirectory (ncmpcpp_directory (Config g3)) k1]
       \<or> new = [ConfigRead cps ign True, BindingsRead bp True, GenerateDefaults,
               CreateDirectory (ncmpcpp_directory (Config g3)) True,
               CreateDirectory (lyrics_directory (Config g3)) k2])"
  using run
proof (cases rule: configure_trace)
  case quiet
  with new have "new = []" by simp
  with dir show ?thesis by simp
next
  case (config_read_failed cps ign)
  with new have "new = [ConfigRead cps ign False]" by simp
  with dir show ?thesis by simp
next
  case (bindings_read_failed cps ign bp)
  with new have "new = [ConfigRead cps ign True, BindingsRead bp False]" by simp
  with dir show ?thesis by simp
next
  case (create_directory_failed cps ign bp g3)
  from create_directory_failed(2) new
  have "new = [ConfigRead cps ign True, BindingsRead bp True, GenerateDefaults,
               CreateDirectory (ncmpcpp_directory (Config g3)) False]
       \<or> new = [ConfigRead cps ign True, BindingsRead bp True, GenerateDefaults,
               CreateDirectory (ncmpcpp_directory (Config g3)) True,
               CreateDirectory (lyrics_directory (Config g3)) False]"
    by auto
  with create_directory_failed(1) show ?thesis by blast
next
  case (all_calls_made cps ign bp g3)
  from all_calls_made(2) new
  have "new = [ConfigRead cps ign True, BindingsRead bp True, GenerateDefaults,
               CreateDirectory (ncmpcpp_directory (Config g3)) True,
               CreateDirectory (lyrics_directory (Config g3)) True]"
    by simp
  with all_calls_made(1) show ?thesis by blast
qed

theorem directories_after_bindings_witness:
  "CreateDirectory ''/srv/lyrics/'' True \<in> set (calls (snd (sample_run sample_env [])))
   \<and> take 3 (calls (snd (sample_run sample_env []))) =
       [ConfigRead [''/home/u/.ncmpcpp/config'', ''/home/u/.config/ncmpcpp/config''] False True,
        BindingsRead ''/srv/ncmpcpp/bindings'' True, GenerateDefaults]"
proof -
  have nil: "calls sample_world = []" by (simp add: sample_world_def)
  have new: "calls (snd (sample_run sample_env [])) = calls sample_world @
      [ConfigRead [''/home/u/.ncmpcpp/config'', ''/home/u/.config/ncmpcpp/config''] False True,
       BindingsRead ''/srv/ncmpcpp/bindings'' True, GenerateDefaults,
       CreateDirectory ''/srv/ncmpcpp/'' True, CreateDirectory ''/srv/lyrics/'' True]"
    by (simp add: sample_calls nil)
  have dir: "CreateDirectory ''/srv/lyrics/'' True \<in> set
      [ConfigRead [''/home/u/.ncmpcpp/config'', ''/home/u/.config/ncmpcpp/config''] False True,
       BindingsRead ''/srv/ncmpcpp/bindings'' True, GenerateDefaults,
       CreateDirectory ''/srv/ncmpcpp/'' True, CreateDirectory ''/srv/lyrics/'' True]"
    by simp
  from directories_after_bindings [OF sample_run_collapse new dir]
  show ?thesis
    by (simp add: sample_calls)
qed

text \<open>
  C5 as stated fails: in a successful run \<open>Bindings.read\<close> is the second call and the two
  directories are created last.
\<close>

theorem bindings_read_before_directories:
  "fst (sample_run sample_env []) = Return True
   \<and> calls (snd (sample_run sample_env [])) =
       [ConfigRead [''/home/u/.ncmpcpp/config'', ''/home/u/.config/ncmpcpp/config''] False True,
        BindingsRead ''/srv/ncmpcpp/bindings'' True, GenerateDefaults,
        CreateDirectory ''/srv/ncmpcpp/'' True, CreateDirectory ''/srv/lyrics/'' True]"
  by (simp add: run_defs)

section \<open>Host and port\<close>

text \<open>
  C1. In every run that returns true, the port of the connection is the value of \<open>--port\<close>
  when the flag was given; otherwise the number in \<open>MPD_PORT\<close> when that variable is set;
  otherwise the port the globals hold after the files were read (\<open>files\<close>). The host is
  resolved the same way from \<open>--host\<close> and \<open>MPD_HOST\<close>, independently of the port. A run
  returns true only if \<open>MPD_PORT\<close>, when set, is a number.
\<close>

theorem precedence_of_host_and_port:
  fixes ext :: "'x externals"
  assumes run: "configure ext getenv argv0 args w = (Return True, w')"
    and parse: "parse_command_line ext args = Inr po"
  shows "\<exists>cps ign bp d1 d2 files.
     calls w' = calls w @ [ConfigRead cps ign True, BindingsRead bp True, GenerateDefaults,
                           CreateDirectory d1 True, CreateDirectory d2 True]
     \<and> files = Mpd (Bindings_generateDefaults ext
                 (snd (Bindings_read ext bp (snd (Config_read ext cps ign (globals w))))))
     \<and> m_port (Mpd (globals w')) =
         (case opt_port po of
            Some p \<Rightarrow> p
          | None \<Rightarrow> (case getenv ''MPD_PORT'' of
                       Some e \<Rightarrow> the (lexical_cast_int ext e)
                     | None \<Rightarrow> m_port files))
     \<and> (case getenv ''MPD_PORT'' of Some e \<Rightarrow> lexical_cast_int ext e \<noteq> None | None \<Rightarrow> True)
     \<and> m_host (Mpd (globals w')) =
         (case opt_host po of
            Some h \<Rightarrow> h
          | None \<Rightarrow> (case getenv ''MPD_HOST'' of
                       Some e \<Rightarrow> e
                     | None \<Rightarrow> m_host files))"
proof -
  have nh: "\<not> opt_help po"
    using configure_help [OF parse, of getenv argv0 w] run by auto
  have nv: "\<not> opt_version po"
    using configure_version [OF parse nh, of getenv argv0 w] run by auto
  from run parse nh nv refl refl show ?thesis
  proof (cases rule: bootstrap_cases)
    case (bootstrapped home cps bp g1 g3 w4)
    from bootstrapped(13) show ?thesis
    proof (cases rule: finish_cases)
      case success
      with bootstrapped show ?thesis
        by (simp add: store_simps variable_simps split: option.splits)
    qed simp_all
  qed simp_all
qed

theorem precedence_of_host_and_port_witness:
  "fst (sample_run (sample_env(''MPD_PORT'' \<mapsto> ''7000'')) [''--port'', ''8000'']) = Return True
   \<and> m_port (Mpd (globals (snd
         (sample_run (sample_env(''MPD_PORT'' \<mapsto> ''7000'')) [''--port'', ''8000''])))) = 8000
   \<and> fst (sample_run (sample_env(''MPD_PORT'' \<mapsto> ''7000'')) []) = Return True
   \<and> m_port (Mpd (globals (snd (sample_run (sample_env(''MPD_PORT'' \<mapsto> ''7000'')) [])))) = 7000
   \<and> m_host (Mpd (globals (snd (sample_run (sample_env(''MPD_PORT'' \<mapsto> ''7000'')) []))))
       = ''filehost''"
proof -
  let ?env = "sample_env(''MPD_PORT'' \<mapsto> ''7000'')"
  have r1: "configure sample_externals ?env ''ncmpcpp'' [''--port'', ''8000''] sample_world
      = (Return True, snd (sample_run ?env [''--port'', ''8000'']))"
    using sample_run_collapse [of ?env "[''--port'', ''8000'']"] sample_success(1) by simp
  have r2: "configure sample_externals ?env ''ncmpcpp'' [] sample_world
      = (Return True, snd (sample_run ?env []))"
    using sample_run_collapse [of ?env "[]"] sample_success(2) by simp
  from precedence_of_host_and_port [OF r1 sample_parse(5)]
    precedence_of_host_and_port [OF r2 sample_parse(1)]
  show ?thesis
    by (simp add: run_defs)
qed

section \<open>Startup screens\<close>

text \<open>
  C6. In a run in which the five collaborator calls succeed and \<open>MPD_PORT\<close>, when set, is a
  number: a name given with \<open>--screen\<close> that \<open>stringtoStartupScreenType\<close> maps to \<open>Unknown\<close>
  ends startup with \<open>exit(1)\<close> and the line \<open>Unknown screen:\<close> followed by the name on the
  error stream; otherwise such a name given with \<open>--slave-screen\<close> ends it with \<open>exit(1)\<close>
  and the line \<open>Unknown slave screen:\<close> followed by the name; and when every name given is
  in the table, \<open>configure\<close> returns true and writes no error.
\<close>

theorem unknown_screen_is_fatal:
  fixes ext :: "'x externals"
  assumes run: "configure ext getenv argv0 args w = (out, w')"
    and parse: "parse_command_line ext args = Inr po"
    and all_ok: "calls w' = calls w @ [ConfigRead cps ign True, BindingsRead bp True,
                   GenerateDefaults, CreateDirectory d1 True, CreateDirectory d2 True]"
    and port_ok: "\<forall>p. getenv ''MPD_PORT'' = Some p \<longrightarrow> lexical_cast_int ext p \<noteq> None"
  shows "(\<forall>s. opt_screen po = Some s \<and> stringtoStartupScreenType ext s = Unknown \<longrightarrow>
            out = Exit 1 \<and> cerr w' = cerr w @ ''Unknown screen: '' @ s @ ''\<newline>'')
    \<and> (\<forall>s. (\<forall>p. opt_screen po = Some p \<longrightarrow> stringtoStartupScreenType ext p \<noteq> Unknown) \<and>
            opt_slave_screen po = Some s \<and> stringtoStartupScreenType ext s = Unknown \<longrightarrow>
            out = Exit 1 \<and> cerr w' = cerr w @ ''Unknown slave screen: '' @ s @ ''\<newline>'')
    \<and> ((\<forall>p. opt_screen po = Some p \<longrightarrow> stringtoStartupScreenType ext p \<noteq> Unknown) \<and>
        (\<forall>p. opt_slave_screen po = Some p \<longrightarrow> stringtoStartupScreenType ext p \<noteq> Unknown) \<longrightarrow>
            out = Return True \<and> cerr w' = cerr w)"
proof -
  from all_ok have "calls w' \<noteq> calls w" by simp
  from made_calls_past_command_line [OF run parse this]
  have nh: "\<not> opt_help po" and nv: "\<not> opt_version po" by simp_all
  from run parse nh nv refl refl show ?thesis
  proof (cases rule: bootstrap_cases)
    case no_home
    with all_ok show ?thesis by simp
  next
    case (config_failed home cps')
    with all_ok show ?thesis by simp
  next
    case (bindings_failed home cps' bp' g1)
    with all_ok show ?thesis by simp
  next
    case (directory_failed home cps' bp' g1 g3)
    from directory_failed(9) all_ok show ?thesis by auto
  next
    case (bootstrapped home cps' bp' g1 g3 w4)
    from bootstrapped(13) show ?thesis
    proof (cases rule: finish_cases)
      case (bad_port p)
      with port_ok show ?thesis by simp
    next
      case (unknown_screen s)
      with bootstrapped(11) show ?thesis by (simp add: store_simps)
    next
      case (unknown_slave_screen s)
      with bootstrapped(11) show ?thesis by (simp add: store_simps)
    next
      case success
      with bootstrapped(11) show ?thesis by (simp add: store_simps)
    qed
  qed
qed

theorem unknown_screen_is_fatal_witness:
  "fst (sample_run sample_env [''--screen'', ''bogus'']) = Exit 1
   \<and> cerr (snd (sample_run sample_env [''--screen'', ''bogus''])) = ''Unknown screen: bogus\<newline>''
   \<and> fst (sample_run sample_env [''--slave-screen'', ''bogus'']) = Exit 1
   \<and> cerr (snd (sample_run sample_env [''--slave-screen'', ''bogus'']))
       = ''Unknown slave screen: bogus\<newline>''
   \<and> fst (sample_run sample_env [''--screen'', ''playlist'']) = Return True
   \<and> cerr (snd (sample_run sample_env [''--screen'', ''playlist''])) = []"
proof -
  have nil: "calls sample_world = []" by (simp add: sample_world_def)
  have port_ok: "\<forall>p. sample_env ''MPD_PORT'' = Some p \<longrightarrow> lexical_cast_int sample_externals p \<noteq> None"
    by (simp add: sample_env_def)
  have c1: "calls (snd (sample_run sample_env [''--screen'', ''bogus''])) = calls sample_world @
      [ConfigRead [''/home/u/.ncmpcpp/config'', ''/home/u/.config/ncmpcpp/config''] False True,
       BindingsRead ''/srv/ncmpcpp/bindings'' True, GenerateDefaults,
       CreateDirectory ''/srv/ncmpcpp/'' True, CreateDirectory ''/srv/lyrics/'' True]"
    and c2: "calls (snd (sample_run sample_env [''--slave-screen'', ''bogus''])) = calls sample_world @
      [ConfigRead [''/home/u/.ncmpcpp/config'', ''/home/u/.config/ncmpcpp/config''] False True,
       BindingsRead ''/srv/ncmpcpp/bindings'' True, GenerateDefaults,
       CreateDirectory ''/srv/ncmpcpp/'' True, CreateDirectory ''/srv/lyrics/'' True]"
    and c3: "calls (snd (sample_run sample_env [''--screen'', ''playlist''])) = calls sample_world @
      [ConfigRead [''/home/u/.ncmpcpp/config'', ''/home/u/.config/ncmpcpp/config''] False True,
       BindingsRead ''/srv/ncmpcpp/bindings'' True, GenerateDefaults,
       CreateDirectory ''/srv/ncmpcpp/'' True, CreateDirectory ''/srv/lyrics/'' True]"
    by (simp_all add: sample_calls nil)
  from unknown_screen_is_fatal [OF sample_run_collapse sample_parse(8) c1 port_ok]
    unknown_screen_is_fatal [OF sample_run_collapse sample_parse(10) c2 port_ok]
    unknown_screen_is_fatal [OF sample_run_collapse sample_parse(9) c3 port_ok]
  show ?thesis
    by (simp add: no_options_def sample_externals_def sample_world_def)
qed

end
